theory Spec2Isabelle
  imports Complex_Main
begin

section \<open>sqliteViewer: the query handler, the CSV export and the plot arithmetic\<close>

text \<open>
  A shallow embedding of \<^verbatim>\<open>sqliteViewer.C\<close>, \<^verbatim>\<open>gui_handlers.inline.h\<close> and
  \<^verbatim>\<open>plot_utils.h\<close>. Conventions of the model:
  \<^item> a \<^verbatim>\<open>TString\<close> is a \<open>string\<close>; a \<^verbatim>\<open>std::vector\<close> and a \<^verbatim>\<open>std::deque\<close> are lists
    with the front of the deque at the head;
  \<^item> a \<^verbatim>\<open>TGTextView\<close> is the list of the lines added since its last \<^verbatim>\<open>Clear()\<close>;
  \<^item> the connected database \<^verbatim>\<open>fDB\<close> is a parameter \<open>db\<close>: the function from the
    statement text to the result of \<^verbatim>\<open>fDB->Query\<close>, \<open>None\<close> for the null pointer;
  \<^item> a \<^verbatim>\<open>double\<close> is idealised as a \<open>real\<close>: rounding, infinities and NaN are
    outside the model;
  \<^item> where the source reads outside an array, or divides 0 by 0, the model has the value
    \<open>None\<close>: the source has no defined result there.
\<close>

subsection \<open>Strings (\<^verbatim>\<open>TString\<close>)\<close>

text \<open>\<^verbatim>\<open>tolower\<close> of the C locale: only the letters A to Z change.\<close>

definition tolower :: "char \<Rightarrow> char" where
  "tolower c =
     (let n = (of_char c :: nat) in if 65 \<le> n \<and> n \<le> 90 then char_of (n + 32) else c)"

text \<open>\<^verbatim>\<open>TString::ToLower\<close> applies \<^verbatim>\<open>tolower\<close> to every character.\<close>

definition ToLower :: "string \<Rightarrow> string" where
  "ToLower s = map tolower s"

text \<open>\<^verbatim>\<open>TString::BeginsWith(pat)\<close> with the default exact comparison.\<close>

definition BeginsWith :: "string \<Rightarrow> string \<Rightarrow> bool" where
  "BeginsWith s pat = (take (length pat) s = pat)"

text \<open>\<^verbatim>\<open>TString::IsNull\<close>: the string has length 0.\<close>

definition IsNull :: "string \<Rightarrow> bool" where
  "IsNull s = (length s = 0)"

text \<open>\<^verbatim>\<open>TString::Format("%-15s", s)\<close>: left-justified, padded with spaces to 15
  characters, never truncated.\<close>

definition Format15 :: "string \<Rightarrow> string" where
  "Format15 s = s @ replicate (15 - length s) (CHR '' '')"

subsection \<open>The database result (\<^verbatim>\<open>TSQLResult\<close>, \<^verbatim>\<open>TSQLRow\<close>)\<close>

record TSQLResult =
  fieldNames :: "string list"
  resultRows :: "string list list"

definition GetFieldCount :: "TSQLResult \<Rightarrow> nat" where
  "GetFieldCount r = length (fieldNames r)"

definition GetFieldName :: "TSQLResult \<Rightarrow> nat \<Rightarrow> string" where
  "GetFieldName r i = (if i < length (fieldNames r) then fieldNames r ! i else [])"

text \<open>\<^verbatim>\<open>TSQLRow::GetField\<close> yields a null pointer for an SQL NULL or a field that
  does not exist; the \<^verbatim>\<open>TString\<close> built from it is empty.\<close>

definition GetField :: "string list \<Rightarrow> nat \<Rightarrow> string" where
  "GetField row i = (if i < length row then row ! i else [])"

subsection \<open>Charts and plot windows\<close>

text \<open>A \<^verbatim>\<open>TCanvas*\<close> is the identity of a plot window. A histogram is its binning and
  the values filled into it; a graph is its points and its marker colour. Titles, axis
  labels and the statistics box are rendering and are not part of the model.\<close>

type_synonym TCanvas = nat

record TH1D =
  h1_nbins :: int
  h1_xlow :: real
  h1_xup :: real
  h1_fills :: "real list"

record TH2D =
  h2_nbinsx :: int
  h2_xlow :: real
  h2_xup :: real
  h2_nbinsy :: int
  h2_ylow :: real
  h2_yup :: real
  h2_fills :: "(real \<times> real) list"

datatype color = kBlue | kRed

record TGraph =
  points :: "(real \<times> real) list"
  markerColor :: color

datatype drawing = DrawTH1D TH1D | DrawTH2D TH2D | DrawGraph TGraph | DrawNothing

datatype window_event = Closed TCanvas | Deleted TCanvas | Created TCanvas

subsection \<open>The main frame (\<^verbatim>\<open>MyMainFrame\<close>)\<close>

text \<open>
  The members that the handlers below read or write. \<open>queried\<close> is not a member of the
  class: it lists, in order, the statements handed to \<^verbatim>\<open>fDB->Query\<close>, so that
  ``the database is not queried'' can be said.
\<close>

record MyMainFrame =
  fDataView :: "string list"
  fCurrentTableData :: "string list list"
  fCurrentTableHeader :: "string list"
  fLastHist :: "TH1D option"
  fLastHist2D :: "TH2D option"
  fCanvasQueue :: "TCanvas list"
  fQueryHistory :: "string list"
  fQueryHistoryView :: "string list"
  fSQLBox :: string
  queried :: "string list"

definition kMaxQueryHistory :: nat where
  "kMaxQueryHistory = 10"

definition kMaxCanvases :: nat where
  "kMaxCanvases = 3"

text \<open>\<^verbatim>\<open>LoadQueryResultsToTable\<close> (sqliteViewer.C, lines 106 to 141). The refresh of
  the two column selectors that follows (lines 143 to 158) touches widgets only and is
  not part of the model.\<close>

definition LoadQueryResultsToTable :: "TSQLResult option \<Rightarrow> MyMainFrame \<Rightarrow> MyMainFrame" where
  "LoadQueryResultsToTable result s =
     (case result of
        None \<Rightarrow> s
      | Some r \<Rightarrow>
          (let nFields = GetFieldCount r;
               cols = map (GetFieldName r) [0..<nFields];
               header = concat (map Format15 cols);
               table = map (\<lambda>row. map (GetField row) [0..<nFields]) (resultRows r);
               textLines = map (\<lambda>rowData. concat (map Format15 rowData)) table
           in s\<lparr>fCurrentTableHeader := cols,
                fCurrentTableData := table,
                fDataView := [header, '' ''] @ textLines\<rparr>))"

text \<open>\<^verbatim>\<open>MyMainFrame::OnRunSQLClicked\<close> (gui_handlers.inline.h, lines 138 to 189).
  The selection of the synthetic ``Custom'' entry of the table dropdown (lines 175 to
  186) touches widgets only and is not part of the model.\<close>

definition OnRunSQLClicked :: "(string \<Rightarrow> TSQLResult option) \<Rightarrow> MyMainFrame \<Rightarrow> MyMainFrame" where
  "OnRunSQLClicked db s =
     (let userQuery = fSQLBox s;
          lower = ToLower userQuery;
          pushed = fQueryHistory s @ [userQuery];
          history = (if length pushed > kMaxQueryHistory then tl pushed else pushed);
          s1 = s\<lparr>fQueryHistory := history, fQueryHistoryView := history\<rparr>
      in if \<not> BeginsWith lower ''select''
         then s1\<lparr>fDataView := [''Only SELECT queries are allowed.'']\<rparr>
         else
           (let s2 = s1\<lparr>queried := queried s1 @ [userQuery]\<rparr>
            in case db userQuery of
                 None \<Rightarrow> s2\<lparr>fDataView := [''Query failed or returned no results.'']\<rparr>
               | Some r \<Rightarrow> (LoadQueryResultsToTable (Some r) s2)\<lparr>fSQLBox := []\<rparr>))"

text \<open>A submission: the user types \<open>q\<close> into the SQL box and clicks Run.\<close>

definition submit :: "(string \<Rightarrow> TSQLResult option) \<Rightarrow> MyMainFrame \<Rightarrow> string \<Rightarrow> MyMainFrame" where
  "submit db s q = OnRunSQLClicked db (s\<lparr>fSQLBox := q\<rparr>)"

text \<open>A session of submissions, one after the other.\<close>

definition submit_all :: "(string \<Rightarrow> TSQLResult option) \<Rightarrow> MyMainFrame \<Rightarrow> string list \<Rightarrow> MyMainFrame" where
  "submit_all db s qs = foldl (submit db) s qs"

text \<open>The frame after construction: nothing displayed, nothing recorded.\<close>

definition initial_frame :: MyMainFrame where
  "initial_frame =
     \<lparr>fDataView = [], fCurrentTableData = [], fCurrentTableHeader = [],
      fLastHist = None, fLastHist2D = None, fCanvasQueue = [],
      fQueryHistory = [], fQueryHistoryView = [], fSQLBox = [], queried = []\<rparr>"

text \<open>What the claim about the prefix check calls ``begins with select, compared
  case-insensitively and tolerating leading whitespace'': the white space of
  \<^verbatim>\<open>isspace\<close> is skipped first.\<close>

definition isspace :: "char \<Rightarrow> bool" where
  "isspace c = (c \<in> set [CHR '' '', CHR 0x09, CHR 0x0A, CHR 0x0B, CHR 0x0C, CHR 0x0D])"

definition begins_with_select_trimmed :: "string \<Rightarrow> bool" where
  "begins_with_select_trimmed q = BeginsWith (ToLower (dropWhile isspace q)) ''select''"

text \<open>A query is rejected when the view shows the read-only message alone and nothing
  was handed to the database.\<close>

definition rejected :: "MyMainFrame \<Rightarrow> MyMainFrame \<Rightarrow> bool" where
  "rejected s s' =
     (fDataView s' = [''Only SELECT queries are allowed.''] \<and> queried s' = queried s)"

subsection \<open>CSV export\<close>

definition dquote :: char where
  "dquote = CHR 0x22"

definition newline :: char where
  "newline = CHR 0x0A"

text \<open>\<^verbatim>\<open>TString::EndsWith(pat)\<close>.\<close>

definition EndsWith :: "string \<Rightarrow> string \<Rightarrow> bool" where
  "EndsWith s pat = (length pat \<le> length s \<and> drop (length s - length pat) s = pat)"

text \<open>One pass of the loops at lines 56 to 59 and 63 to 66 of gui_handlers.inline.h:
  the cell \<open>i\<close> between double quotes, and a comma unless \<open>i\<close> is the last index. The
  loop body runs only when the row has a cell, so \<^verbatim>\<open>size() - 1\<close> does not wrap.\<close>

definition write_cell :: "string list \<Rightarrow> nat \<Rightarrow> string" where
  "write_cell row i =
     [dquote] @ row ! i @ [dquote] @ (if i < length row - 1 then '','' else [])"

definition write_row :: "string list \<Rightarrow> string" where
  "write_row row = concat (map (write_cell row) [0..<length row]) @ [newline]"

record export_outcome =
  printed :: "string list"
  written :: "(string \<times> string) option"

text \<open>\<^verbatim>\<open>MyMainFrame::OnExportCSVClicked\<close> (gui_handlers.inline.h, lines 34 to 73).
  \<open>fFilename\<close> is what the file dialog returned (empty when the user cancelled) and
  \<open>is_open\<close> tells whether the output stream could be opened; \<open>written\<close> is the path
  and the bytes of the file, \<open>printed\<close> what went to the standard output.\<close>

definition OnExportCSVClicked :: "string \<Rightarrow> (string \<Rightarrow> bool) \<Rightarrow> MyMainFrame \<Rightarrow> export_outcome" where
  "OnExportCSVClicked fFilename is_open s =
     (if fCurrentTableData s = []
      then \<lparr>printed = [''No displayed table data to export.''], written = None\<rparr>
      else if IsNull fFilename then \<lparr>printed = [], written = None\<rparr>
      else
        (let path = (if \<not> EndsWith fFilename ''.csv'' then fFilename @ ''.csv'' else fFilename)
         in if \<not> is_open path
            then \<lparr>printed = [''Failed to open file for writing: '' @ path], written = None\<rparr>
            else \<lparr>printed = [''CSV export complete: '' @ path],
                  written = Some (path,
                    write_row (fCurrentTableHeader s) @
                    concat (map write_row (fCurrentTableData s)))\<rparr>))"

text \<open>The format as the specification words it: every cell between double quotes, the
  cells of a line separated by commas, nothing escaped, a line feed after each line, the
  header line first.\<close>

fun comma_separated :: "string list \<Rightarrow> string" where
  "comma_separated [] = []"
| "comma_separated [c] = c"
| "comma_separated (c # cs) = c @ '','' @ comma_separated cs"

definition csv_line :: "string list \<Rightarrow> string" where
  "csv_line cells = comma_separated (map (\<lambda>c. [dquote] @ c @ [dquote]) cells) @ [newline]"

definition csv_text :: "string list \<Rightarrow> string list list \<Rightarrow> string" where
  "csv_text header rows = concat (map csv_line (header # rows))"

subsection \<open>Quantiles and nice bin widths (plot_utils.h)\<close>

text \<open>\<^verbatim>\<open>GetQuartile\<close> (lines 20 to 35). The conversion of a negative \<^verbatim>\<open>double\<close> to
  \<^verbatim>\<open>size_t\<close> and a read at an index that is not below the size are undefined in the
  source: the model yields \<open>None\<close> there.\<close>

definition GetQuartile :: "real list \<Rightarrow> real \<Rightarrow> real option" where
  "GetQuartile data quartile =
     (if data = [] then Some 0
      else
        (let sorted = sort data;
             idx = quartile * real (length data - 1)
         in if \<lfloor>idx\<rfloor> < 0 \<or> int (length data) \<le> \<lceil>idx\<rceil> then None
            else
              (let idx_below = nat \<lfloor>idx\<rfloor>;
                   idx_above = nat \<lceil>idx\<rceil>
               in if idx_below = idx_above then Some (sorted ! idx_below)
                  else
                    (let fraction = idx - real idx_below
                     in Some (sorted ! idx_below * (1 - fraction) + sorted ! idx_above * fraction)))))"

text \<open>The quantile as the specification words it: linear interpolation between the
  two adjacent order statistics of the sorted data at the fractional rank \<open>q * (n - 1)\<close>.\<close>

definition interpolated_quantile :: "real list \<Rightarrow> real \<Rightarrow> real" where
  "interpolated_quantile xs q =
     (let s = sort xs;
          h = q * real (length xs - 1);
          lo = nat \<lfloor>h\<rfloor>;
          hi = min (lo + 1) (length xs - 1)
      in s ! lo + (h - real lo) * (s ! hi - s ! lo))"

text \<open>\<^verbatim>\<open>RoundToNiceValue\<close> (lines 38 to 51). The branch for a positive value is
  written in exact arithmetic: what \<^verbatim>\<open>std::log10\<close> and \<^verbatim>\<open>std::pow\<close> do to a \<^verbatim>\<open>double\<close>
  at the ends of its range (underflow to 0, overflow to infinity, rounding at the edge
  of a decade) is not reproduced, and the properties below use the first branch only.\<close>

definition RoundToNiceValue :: "real \<Rightarrow> real" where
  "RoundToNiceValue val =
     (if val \<le> 0 then 1
      else
        (let exponent = real_of_int \<lfloor>log 10 val\<rfloor>;
             base = val / 10 powr exponent;
             niceBase = (if base < 1.5 then 1 else if base < 3 then 2 else if base < 7 then 5 else 10)
         in niceBase * 10 powr exponent))"

subsection \<open>The plot builder (plot_utils.h, \<^verbatim>\<open>PlotSelectedData\<close>)\<close>

text \<open>The loop at lines 121 to 127. The comparison \<^verbatim>\<open>row.size() > xIndex\<close> converts the
  \<^verbatim>\<open>int\<close> to \<^verbatim>\<open>size_t\<close>, so a negative index compares as a number above every row
  length and the cell is not valid. \<open>Atof\<close> is \<^verbatim>\<open>TString::Atof\<close>.\<close>

definition valid_cell :: "string list \<Rightarrow> int \<Rightarrow> bool" where
  "valid_cell row idx = (0 \<le> idx \<and> nat idx < length row \<and> \<not> IsNull (row ! nat idx))"

fun collect_series :: "(string \<Rightarrow> real) \<Rightarrow> int \<Rightarrow> int \<Rightarrow> string list list \<Rightarrow> real list \<times> real list" where
  "collect_series Atof xIndex yIndex [] = ([], [])"
| "collect_series Atof xIndex yIndex (row # rows) =
     (let xValid = valid_cell row xIndex;
          yValid = valid_cell row yIndex;
          (xData, yData) = collect_series Atof xIndex yIndex rows
      in ((if xValid then [Atof (row ! nat xIndex)] else []) @ xData,
          (if yIndex \<ge> 0 \<and> yValid then [Atof (row ! nat yIndex)] else []) @ yData))"

text \<open>\<^verbatim>\<open>TMath::MinElement\<close> and \<^verbatim>\<open>TMath::MaxElement\<close> dereference the first element of
  an empty array.\<close>

fun MinElement :: "real list \<Rightarrow> real option" where
  "MinElement [] = None"
| "MinElement (x # xs) = Some (fold min xs x)"

fun MaxElement :: "real list \<Rightarrow> real option" where
  "MaxElement [] = None"
| "MaxElement (x # xs) = Some (fold max xs x)"

text \<open>The conversion \<^verbatim>\<open>(int)\<close> of a \<^verbatim>\<open>double\<close> truncates toward zero. Outside the range
  of a 32-bit \<^verbatim>\<open>int\<close> the C++ standard leaves the result open; the model takes what the
  platform yields there as the parameter \<open>ovf\<close>.\<close>

definition int_of_double :: "(real \<Rightarrow> int) \<Rightarrow> real \<Rightarrow> int" where
  "int_of_double ovf r =
     (let t = (if 0 \<le> r then \<lfloor>r\<rfloor> else \<lceil>r\<rceil>)
      in if - (2 ^ 31) \<le> t \<and> t < 2 ^ 31 then t else ovf r)"

text \<open>The bin width of lines 147 to 152 (and of lines 172 to 181 for each axis of the
  2D histogram): the Freedman--Diaconis width, rounded to a nice value, 1 if that is
  not positive. For an empty series the source divides 0 by 0. A series is a list of
  finite values: the infinities and NaN that \<^verbatim>\<open>Atof\<close> can return are not reproduced, and
  the properties below use of the width only that it is computed, and that it is 1
  when the two quartiles are equal.\<close>

definition binWidth :: "real list \<Rightarrow> real option" where
  "binWidth data =
     (if data = [] then None
      else
        (case (GetQuartile data 0.25, GetQuartile data 0.75) of
           (Some q1, Some q3) \<Rightarrow>
             (let iqr = q3 - q1;
                  rawBinWidth = 2 * iqr / root 3 (real (length data));
                  bw = RoundToNiceValue rawBinWidth
              in Some (if bw \<le> 0 then 1 else bw))
         | _ \<Rightarrow> None))"

text \<open>The bin count of lines 154 to 157 (and 183 to 191).\<close>

definition nBins :: "(real \<Rightarrow> int) \<Rightarrow> real list \<Rightarrow> int option" where
  "nBins ovf data =
     (case (binWidth data, MinElement data, MaxElement data) of
        (Some bw, Some minVal, Some maxVal) \<Rightarrow>
          (let n = int_of_double ovf ((maxVal - minVal) / bw)
           in Some (if n < 1 then 10 else n))
      | _ \<Rightarrow> None)"

text \<open>\<^verbatim>\<open>tableHeader[i]\<close> is read for the titles; the index has to be in range.\<close>

definition header_in_range :: "string list \<Rightarrow> int \<Rightarrow> bool" where
  "header_in_range tableHeader i = (0 \<le> i \<and> nat i < length tableHeader)"

text \<open>The 1D histogram of lines 147 to 170.\<close>

definition Hist1D :: "(real \<Rightarrow> int) \<Rightarrow> string list \<Rightarrow> int \<Rightarrow> real list \<Rightarrow> TH1D option" where
  "Hist1D ovf tableHeader xIndex xData =
     (case (nBins ovf xData, MinElement xData, MaxElement xData) of
        (Some n, Some minVal, Some maxVal) \<Rightarrow>
          if header_in_range tableHeader xIndex
          then Some \<lparr>h1_nbins = n, h1_xlow = minVal, h1_xup = maxVal, h1_fills = xData\<rparr>
          else None
      | _ \<Rightarrow> None)"

text \<open>The 2D histogram of lines 172 to 211; it is built only when both series have the
  same length, so \<^verbatim>\<open>yData[i]\<close> is in range for every \<open>i\<close> of the fill loop.\<close>

definition Hist2D :: "(real \<Rightarrow> int) \<Rightarrow> string list \<Rightarrow> int \<Rightarrow> int \<Rightarrow> real list \<Rightarrow> real list \<Rightarrow> TH2D option" where
  "Hist2D ovf tableHeader xIndex yIndex xData yData =
     (case (nBins ovf xData, MinElement xData, MaxElement xData,
            nBins ovf yData, MinElement yData, MaxElement yData) of
        (Some nx, Some minX, Some maxX, Some ny, Some minY, Some maxY) \<Rightarrow>
          if header_in_range tableHeader xIndex \<and> header_in_range tableHeader yIndex
          then Some \<lparr>h2_nbinsx = nx, h2_xlow = minX, h2_xup = maxX,
                     h2_nbinsy = ny, h2_ylow = minY, h2_yup = maxY,
                     h2_fills = zip xData yData\<rparr>
          else None
      | _ \<Rightarrow> None)"

text \<open>The scatter plots of lines 215 to 233: the series against its index, in blue, or
  the pairs, in red.\<close>

definition Scatter1D :: "string list \<Rightarrow> int \<Rightarrow> real list \<Rightarrow> TGraph option" where
  "Scatter1D tableHeader xIndex xData =
     (if header_in_range tableHeader xIndex
      then Some \<lparr>points = zip (map real [0..<length xData]) xData, markerColor = kBlue\<rparr>
      else None)"

definition Scatter2D :: "string list \<Rightarrow> int \<Rightarrow> int \<Rightarrow> real list \<Rightarrow> real list \<Rightarrow> TGraph option" where
  "Scatter2D tableHeader xIndex yIndex xData yData =
     (if header_in_range tableHeader xIndex \<and> header_in_range tableHeader yIndex
      then Some \<lparr>points = zip xData yData, markerColor = kRed\<rparr>
      else None)"

text \<open>What \<^verbatim>\<open>PlotSelectedData\<close> leaves behind: the arguments it received by
  reference, the window operations in the order it made them, and the chart drawn on
  the new canvas (\<open>None\<close> when the source has no defined result).\<close>

record plot_outcome =
  canvasQueue :: "TCanvas list"
  lastHist :: "TH1D option"
  lastHist2D :: "TH2D option"
  windowEvents :: "window_event list"
  drawn :: "drawing option"

text \<open>\<^verbatim>\<open>PlotSelectedData\<close> (lines 108 to 237). \<open>newCanvas\<close> is the window that
  \<^verbatim>\<open>new TCanvas\<close> creates. \<^verbatim>\<open>front()\<close> of an empty queue (possible only when
  \<open>maxCanvases\<close> is 0) is undefined.\<close>

definition PlotSelectedData ::
  "(string \<Rightarrow> real) \<Rightarrow> (real \<Rightarrow> int) \<Rightarrow> TCanvas \<Rightarrow> string list list \<Rightarrow> string list \<Rightarrow>
   int \<Rightarrow> int \<Rightarrow> int \<Rightarrow> TCanvas list \<Rightarrow> nat \<Rightarrow> plot_outcome" where
  "PlotSelectedData Atof ovf newCanvas tableData tableHeader xIndex yIndex plotType queue maxCanvases =
     (let (xData, yData) = collect_series Atof xIndex yIndex tableData
      in if length queue \<ge> maxCanvases \<and> queue = []
         then \<lparr>canvasQueue = queue, lastHist = None, lastHist2D = None,
               windowEvents = [], drawn = None\<rparr>
         else
           (let evict = (length queue \<ge> maxCanvases);
                events = (if evict then [Closed (hd queue), Deleted (hd queue)] else [])
                           @ [Created newCanvas];
                queue' = (if evict then tl queue else queue) @ [newCanvas];
                chart =
                  (if plotType = 1 then
                     (if yIndex < 0 \<or> length yData \<noteq> length xData
                      then map_option DrawTH1D (Hist1D ovf tableHeader xIndex xData)
                      else map_option DrawTH2D (Hist2D ovf tableHeader xIndex yIndex xData yData))
                   else if plotType = 2 then
                     (if yIndex < 0 \<or> length yData \<noteq> length xData
                      then map_option DrawGraph (Scatter1D tableHeader xIndex xData)
                      else map_option DrawGraph (Scatter2D tableHeader xIndex yIndex xData yData))
                   else Some DrawNothing)
            in \<lparr>canvasQueue = queue',
                lastHist = (case chart of Some (DrawTH1D h) \<Rightarrow> Some h | _ \<Rightarrow> None),
                lastHist2D = (case chart of Some (DrawTH2D h) \<Rightarrow> Some h | _ \<Rightarrow> None),
                windowEvents = events,
                drawn = chart\<rparr>))"

text \<open>\<^verbatim>\<open>MyMainFrame::OnPlotButtonClicked\<close> (gui_handlers.inline.h, lines 208 to 229).
  \<open>xSelected\<close>, \<open>ySelected\<close> and \<open>plotType\<close> are what \<^verbatim>\<open>GetSelected()\<close> returns for
  the three selectors. The result is the frame afterwards and either the diagnostic
  printed or the outcome of the plot builder.\<close>

definition OnPlotButtonClicked ::
  "(string \<Rightarrow> real) \<Rightarrow> (real \<Rightarrow> int) \<Rightarrow> TCanvas \<Rightarrow> int \<Rightarrow> int \<Rightarrow> int \<Rightarrow> MyMainFrame \<Rightarrow>
   MyMainFrame \<times> (string + plot_outcome)" where
  "OnPlotButtonClicked Atof ovf newCanvas xSelected ySelected plotType s =
     (let xIndex = xSelected - 1;
          yIndex = ySelected - 1
      in if xIndex < 0 \<or> xIndex \<ge> int (length (fCurrentTableHeader s))
         then (s, Inl ''Invalid X column selection.'')
         else
           (let out = PlotSelectedData Atof ovf newCanvas (fCurrentTableData s)
                        (fCurrentTableHeader s) xIndex yIndex plotType (fCanvasQueue s) kMaxCanvases
            in (s\<lparr>fCanvasQueue := canvasQueue out,
                  fLastHist := lastHist out,
                  fLastHist2D := lastHist2D out\<rparr>, Inr out)))"

text \<open>A plot request is the state of the three selectors and the window that the
  request will open; a session is a list of requests served one after the other.\<close>

definition plot_all ::
  "(string \<Rightarrow> real) \<Rightarrow> (real \<Rightarrow> int) \<Rightarrow> MyMainFrame \<Rightarrow> (TCanvas \<times> int \<times> int \<times> int) list \<Rightarrow> MyMainFrame" where
  "plot_all Atof ovf s reqs =
     foldl (\<lambda>s (c, x, y, t). fst (OnPlotButtonClicked Atof ovf c x y t s)) s reqs"

text \<open>A frame for the examples: a table of two columns and two rows, the second row
  with an empty cell in the second column, and three plot windows open.\<close>

definition demo_frame :: MyMainFrame where
  "demo_frame = initial_frame\<lparr>fCurrentTableHeader := [''a'', ''b''],
      fCurrentTableData := [[''1'', ''2''], [''3'', '''']], fCanvasQueue := [11, 12, 13]\<rparr>"

text \<open>A number parser for the examples: it knows the texts 1, 2 and 3.\<close>

definition demo_Atof :: "string \<Rightarrow> real" where
  "demo_Atof t = (if t = ''1'' then 1 else if t = ''2'' then 2 else if t = ''3'' then 3 else 0)"

text \<open>What the claim calls a numeric cell: a non-empty text made of the characters of a
  decimal literal only.\<close>

definition numeric_text :: "string \<Rightarrow> bool" where
  "numeric_text t = (t \<noteq> [] \<and> list_all (\<lambda>c. c \<in> set ''0123456789.+-eE'') t)"

text \<open>The values of a column that the claim calls valid: the cells that are there, not
  empty and numeric.\<close>

definition claimed_valid_values :: "string list list \<Rightarrow> int \<Rightarrow> string list" where
  "claimed_valid_values tableData idx =
     map (\<lambda>row. row ! nat idx)
       (filter (\<lambda>row. 0 \<le> idx \<and> nat idx < length row \<and> row ! nat idx \<noteq> []
                       \<and> numeric_text (row ! nat idx)) tableData)"

text \<open>A frame for the examples: one row, with a number in the first column and a word
  in the second.\<close>

definition word_frame :: MyMainFrame where
  "word_frame = initial_frame\<lparr>fCurrentTableHeader := [''a'', ''b''],
      fCurrentTableData := [[''1'', ''abc'']]\<rparr>"

section \<open>Properties\<close>

subsection \<open>The query history\<close>

lemma history_step:
  "fQueryHistory (OnRunSQLClicked db s) =
     (let pushed = fQueryHistory s @ [fSQLBox s]
      in if length pushed > kMaxQueryHistory then tl pushed else pushed)"
  by (simp add: OnRunSQLClicked_def LoadQueryResultsToTable_def Let_def split: option.split)

lemma history_submit:
  "length (fQueryHistory s) \<le> 10 \<Longrightarrow>
   fQueryHistory (submit db s q) =
     drop (length (fQueryHistory s @ [q]) - 10) (fQueryHistory s @ [q])"
  by (cases "fQueryHistory s") (auto simp: submit_def history_step kMaxQueryHistory_def Let_def drop_Cons')

lemma last10_snoc:
  "drop (length (drop (length h - 10) h @ [q]) - 10) (drop (length h - 10) h @ [q]) =
   drop (length (h @ [q]) - 10) (h @ [q])"
proof (cases "length h \<le> 10")
  case True
  then show ?thesis by simp
next
  case False
  then have "length h - 10 + 1 = length h - 9" by arith
  with False show ?thesis by (simp add: add.commute)
qed

lemma history_submit_all:
  "length (fQueryHistory s) \<le> 10 \<Longrightarrow>
   fQueryHistory (submit_all db s qs) =
     drop (length (fQueryHistory s @ qs) - 10) (fQueryHistory s @ qs)"
proof (induction qs rule: rev_induct)
  case Nil
  then show ?case by (simp add: submit_all_def)
next
  case (snoc q qs)
  let ?h = "fQueryHistory s @ qs"
  have IH: "fQueryHistory (submit_all db s qs) = drop (length ?h - 10) ?h"
    using snoc by simp
  have len: "length (fQueryHistory (submit_all db s qs)) \<le> 10"
    unfolding IH by simp
  have "fQueryHistory (submit_all db s (qs @ [q])) = fQueryHistory (submit db (submit_all db s qs) q)"
    by (simp add: submit_all_def)
  also have "\<dots> = drop (length (fQueryHistory (submit_all db s qs) @ [q]) - 10)
                     (fQueryHistory (submit_all db s qs) @ [q])"
    by (rule history_submit [OF len])
  also have "\<dots> = drop (length (?h @ [q]) - 10) (?h @ [q])"
    unfolding IH by (rule last10_snoc)
  finally show ?case by simp
qed

text \<open>
  Claim C7. The query history never holds more than 10 entries. Starting from a history
  of at most 10 entries, after the submissions \<open>qs\<close> the history is the last 10 entries
  of the old history followed by \<open>qs\<close>, in submission order with the most recent last:
  each submission beyond the tenth evicts the oldest entry. The database plays no part:
  the entry is recorded before the prefix check.
\<close>

theorem history_bounded_fifo:
  assumes "length (fQueryHistory s) \<le> kMaxQueryHistory"
  shows "fQueryHistory (submit_all db s qs) =
           drop (length (fQueryHistory s @ qs) - kMaxQueryHistory) (fQueryHistory s @ qs)
         \<and> length (fQueryHistory (submit_all db s qs)) \<le> kMaxQueryHistory"
proof -
  from assms have "length (fQueryHistory s) \<le> 10"
    by (simp add: kMaxQueryHistory_def)
  then have "fQueryHistory (submit_all db s qs) =
      drop (length (fQueryHistory s @ qs) - 10) (fQueryHistory s @ qs)"
    by (rule history_submit_all)
  then show ?thesis
    by (simp add: kMaxQueryHistory_def)
qed

text \<open>Eleven submissions into the empty history: the first one is gone, the other ten
  remain in order.\<close>

theorem history_bounded_fifo_witness:
  "length (fQueryHistory initial_frame) \<le> kMaxQueryHistory \<and>
   fQueryHistory (submit_all (\<lambda>q. None) initial_frame
       [''q1'', ''q2'', ''q3'', ''q4'', ''q5'', ''q6'', ''q7'', ''q8'', ''q9'', ''q10'', ''q11'']) =
     [''q2'', ''q3'', ''q4'', ''q5'', ''q6'', ''q7'', ''q8'', ''q9'', ''q10'', ''q11'']"
  using history_bounded_fifo [of initial_frame "\<lambda>q. None"
      "[''q1'', ''q2'', ''q3'', ''q4'', ''q5'', ''q6'', ''q7'', ''q8'', ''q9'', ''q10'', ''q11'']"]
  by (simp add: initial_frame_def kMaxQueryHistory_def)

subsection \<open>The prefix check and the failure message\<close>

lemma lower_drop: "ToLower ''DROP TABLE x'' = ''drop table x''"
  by code_simp

lemma lower_sp_select: "ToLower ''  select 1'' = ''  select 1''"
  by code_simp

lemma lower_select: "ToLower ''select 1'' = ''select 1''"
  by code_simp

lemma rejected_iff_prefix:
  "rejected s (submit db s q) = (\<not> BeginsWith (ToLower q) ''select'')"
  by (auto simp: rejected_def submit_def OnRunSQLClicked_def LoadQueryResultsToTable_def Let_def
           split: option.splits)

text \<open>The handler lowers the case of the text but does not skip leading white space:
  \<^verbatim>\<open>"  select 1"\<close> begins with ``select'' once trimmed, and is rejected.\<close>

theorem select_prefix_check_trimmed_counterexample:
  "begins_with_select_trimmed ''  select 1'' \<and>
   rejected initial_frame (submit (\<lambda>q. None) initial_frame ''  select 1'')"
proof
  have "dropWhile isspace ''  select 1'' = ''select 1''"
    by (simp add: isspace_def)
  then show "begins_with_select_trimmed ''  select 1''"
    by (simp add: begins_with_select_trimmed_def lower_select BeginsWith_def)
  show "rejected initial_frame (submit (\<lambda>q. None) initial_frame ''  select 1'')"
    by (simp add: rejected_iff_prefix lower_sp_select BeginsWith_def)
qed

text \<open>
  Claim C1, as amended. For every SQL string submitted through the run-SQL handler, the
  query is rejected with the message ``Only SELECT queries are allowed.'' and the
  database is not queried if and only if the string, with its letters lowered and
  compared from its very first character, does not begin with ``select''. Leading white
  space is not skipped: \<^verbatim>\<open>"DROP TABLE x"\<close> and \<^verbatim>\<open>"  select 1"\<close> are both rejected,
  \<^verbatim>\<open>"select 1"\<close> is accepted.
\<close>

theorem select_prefix_check:
  "rejected s (submit db s q) = (\<not> BeginsWith (ToLower q) ''select'')
   \<and> rejected s (submit db s ''DROP TABLE x'')
   \<and> rejected s (submit db s ''  select 1'')
   \<and> \<not> rejected s (submit db s ''select 1'')"
  by (simp add: rejected_iff_prefix lower_drop lower_sp_select lower_select BeginsWith_def)

text \<open>At \<^verbatim>\<open>"DROP TABLE x"\<close>.\<close>

theorem select_prefix_check_witness:
  "rejected initial_frame (submit (\<lambda>q. None) initial_frame ''DROP TABLE x'') =
     (\<not> BeginsWith (ToLower ''DROP TABLE x'') ''select'')
   \<and> rejected initial_frame (submit (\<lambda>q. None) initial_frame ''DROP TABLE x'')"
  using select_prefix_check [of initial_frame "\<lambda>q. None" "''DROP TABLE x''"]
  by blast

lemma field_names_all: "map (GetFieldName r) [0..<GetFieldCount r] = fieldNames r"
  by (intro nth_equalityI) (auto simp: GetFieldName_def GetFieldCount_def)

lemma load_result:
  "LoadQueryResultsToTable (Some r) s =
     s\<lparr>fCurrentTableHeader := fieldNames r,
       fCurrentTableData := map (\<lambda>row. map (GetField row) [0..<GetFieldCount r]) (resultRows r),
       fDataView := [concat (map Format15 (fieldNames r)), '' ''] @
         map (\<lambda>rowData. concat (map Format15 rowData))
           (map (\<lambda>row. map (GetField row) [0..<GetFieldCount r]) (resultRows r))\<rparr>"
  unfolding LoadQueryResultsToTable_def Let_def field_names_all by simp

text \<open>A query that passes the prefix check and returns a result with a column and no
  row: the view does not show the failure message.\<close>

theorem empty_result_counterexample:
  "BeginsWith (ToLower ''select a from t'') ''select'' \<and>
   resultRows \<lparr>fieldNames = [''a''], resultRows = []\<rparr> = [] \<and>
   fDataView (submit (\<lambda>q. Some \<lparr>fieldNames = [''a''], resultRows = []\<rparr>) initial_frame
                ''select a from t'')
     \<noteq> [''Query failed or returned no results.'']"
proof -
  have "ToLower ''select a from t'' = ''select a from t''" by code_simp
  then show ?thesis
    by (simp add: BeginsWith_def submit_def OnRunSQLClicked_def LoadQueryResultsToTable_def Let_def)
qed

text \<open>
  Claim C2, as amended. For every submitted query that passes the prefix check: when
  \<^verbatim>\<open>fDB->Query\<close> yields no result object, the view is cleared and shows the one line
  ``Query failed or returned no results.''; when it yields a result with zero rows, no
  message is shown: the view is cleared and shows the header line and the separator
  line only, and the cached table is the new header with no rows. In neither case does
  a line of the previous table stay in the view.
\<close>

theorem failed_or_empty_query:
  assumes "BeginsWith (ToLower q) ''select''"
  shows "(db q = None \<longrightarrow>
            fDataView (submit db s q) = [''Query failed or returned no results.''])
       \<and> (\<forall>r. db q = Some r \<and> resultRows r = [] \<longrightarrow>
            fDataView (submit db s q) = [concat (map Format15 (fieldNames r)), '' '']
          \<and> fCurrentTableHeader (submit db s q) = fieldNames r
          \<and> fCurrentTableData (submit db s q) = [])"
  using assms
  by (auto simp: submit_def OnRunSQLClicked_def load_result Let_def)

lemma header_line_ab: "concat (map Format15 [''a'', ''b'']) = ''a              b              ''"
  by code_simp

text \<open>A database that fails on \<^verbatim>\<open>"select 1"\<close>, and one that answers with two columns and
  no row.\<close>

theorem failed_or_empty_query_witness:
  "BeginsWith (ToLower ''select 1'') ''select'' \<and>
   fDataView (submit (\<lambda>q. None) initial_frame ''select 1'') =
     [''Query failed or returned no results.''] \<and>
   resultRows \<lparr>fieldNames = [''a'', ''b''], resultRows = []\<rparr> = [] \<and>
   fDataView (submit (\<lambda>q. Some \<lparr>fieldNames = [''a'', ''b''], resultRows = []\<rparr>) initial_frame ''select 1'') =
     [''a              b              '', '' ''] \<and>
   fCurrentTableData (submit (\<lambda>q. Some \<lparr>fieldNames = [''a'', ''b''], resultRows = []\<rparr>) initial_frame ''select 1'') = []"
proof -
  have h: "BeginsWith (ToLower ''select 1'') ''select''"
    by (simp add: lower_select BeginsWith_def)
  from failed_or_empty_query [OF h, of "\<lambda>q. None" initial_frame]
  have a: "fDataView (submit (\<lambda>q. None) initial_frame ''select 1'') =
     [''Query failed or returned no results.'']" by simp
  from failed_or_empty_query [OF h, of "\<lambda>q. Some \<lparr>fieldNames = [''a'', ''b''], resultRows = []\<rparr>" initial_frame]
  have b: "fDataView (submit (\<lambda>q. Some \<lparr>fieldNames = [''a'', ''b''], resultRows = []\<rparr>) initial_frame ''select 1'') =
     [''a              b              '', '' ''] \<and>
   fCurrentTableData (submit (\<lambda>q. Some \<lparr>fieldNames = [''a'', ''b''], resultRows = []\<rparr>) initial_frame ''select 1'') = []"
    using header_line_ab by simp
  from h a b show ?thesis by simp
qed

subsection \<open>CSV export\<close>

lemma write_cell_Cons:
  "i < length cs \<Longrightarrow> write_cell (c # cs) (Suc i) = write_cell cs i"
  by (auto simp: write_cell_def)

lemma write_cells_eq:
  "concat (map (write_cell cells) [0..<length cells]) =
   comma_separated (map (\<lambda>c. [dquote] @ c @ [dquote]) cells)"
proof (induction cells)
  case Nil
  then show ?case by simp
next
  case (Cons c cs)
  have shift: "map (\<lambda>i. write_cell (c # cs) (Suc i)) [0..<length cs] = map (write_cell cs) [0..<length cs]"
    by (rule map_cong) (simp_all add: write_cell_Cons)
  have "concat (map (write_cell (c # cs)) [0..<length (c # cs)]) =
        write_cell (c # cs) 0 @ concat (map (write_cell cs) [0..<length cs])"
    by (simp add: map_upt_Suc shift del: upt_Suc)
  also have "\<dots> = write_cell (c # cs) 0 @ comma_separated (map (\<lambda>c. [dquote] @ c @ [dquote]) cs)"
    by (simp add: Cons.IH)
  also have "\<dots> = comma_separated (map (\<lambda>c. [dquote] @ c @ [dquote]) (c # cs))"
    by (cases cs) (simp_all add: write_cell_def)
  finally show ?case .
qed

lemma write_row_csv_line: "write_row row = csv_line row"
  by (simp add: write_row_def csv_line_def write_cells_eq)

text \<open>
  Claim C9, as amended. For every loaded result table that holds at least one data row,
  CSV export writes the header line followed by one line per data row, every cell
  between double quotes, the cells separated by commas, nothing escaped inside a cell,
  each line ended by a line feed; the file is written when the dialog returned a name
  and the stream could be opened, under that name with \<^verbatim>\<open>.csv\<close> appended unless it
  ends so. For a table without a data row nothing is written and ``No displayed table
  data to export.'' is printed. The table with header \<^verbatim>\<open>["a","b"]\<close> and the one row
  \<^verbatim>\<open>["1","2"]\<close> gives exactly the two lines \<^verbatim>\<open>"a","b"\<close> and \<^verbatim>\<open>"1","2"\<close>.
\<close>

theorem csv_export_format:
  "(fCurrentTableData s \<noteq> [] \<and> fFilename \<noteq> [] \<and>
    is_open (if EndsWith fFilename ''.csv'' then fFilename else fFilename @ ''.csv'') \<longrightarrow>
      written (OnExportCSVClicked fFilename is_open s) =
        Some (if EndsWith fFilename ''.csv'' then fFilename else fFilename @ ''.csv'',
              csv_text (fCurrentTableHeader s) (fCurrentTableData s)))
   \<and> (fCurrentTableData s = [] \<longrightarrow>
        written (OnExportCSVClicked fFilename is_open s) = None
      \<and> printed (OnExportCSVClicked fFilename is_open s) = [''No displayed table data to export.''])
   \<and> csv_text [''a'', ''b''] [[''1'', ''2'']] =
        [dquote] @ ''a'' @ [dquote] @ '','' @ [dquote] @ ''b'' @ [dquote] @ [newline] @
        [dquote] @ ''1'' @ [dquote] @ '','' @ [dquote] @ ''2'' @ [dquote] @ [newline]"
proof (intro conjI impI)
  have rows: "write_row = csv_line"
    by (rule ext) (rule write_row_csv_line)
  assume "fCurrentTableData s \<noteq> [] \<and> fFilename \<noteq> [] \<and>
    is_open (if EndsWith fFilename ''.csv'' then fFilename else fFilename @ ''.csv'')"
  then show "written (OnExportCSVClicked fFilename is_open s) =
        Some (if EndsWith fFilename ''.csv'' then fFilename else fFilename @ ''.csv'',
              csv_text (fCurrentTableHeader s) (fCurrentTableData s))"
    by (auto simp: OnExportCSVClicked_def IsNull_def Let_def csv_text_def rows split: if_splits)
next
  assume e: "fCurrentTableData s = []"
  then show "written (OnExportCSVClicked fFilename is_open s) = None"
    by (simp add: OnExportCSVClicked_def)
  from e show "printed (OnExportCSVClicked fFilename is_open s) = [''No displayed table data to export.'']"
    by (simp add: OnExportCSVClicked_def)
next
  show "csv_text [''a'', ''b''] [[''1'', ''2'']] =
        [dquote] @ ''a'' @ [dquote] @ '','' @ [dquote] @ ''b'' @ [dquote] @ [newline] @
        [dquote] @ ''1'' @ [dquote] @ '','' @ [dquote] @ ''2'' @ [dquote] @ [newline]"
    by (simp add: csv_text_def csv_line_def)
qed

text \<open>The bytes of that file, one by one; and nothing is written for the empty table.\<close>

theorem csv_export_format_witness:
  "written (OnExportCSVClicked ''out'' (\<lambda>p. True)
      (initial_frame\<lparr>fCurrentTableHeader := [''a'', ''b''], fCurrentTableData := [[''1'', ''2'']]\<rparr>)) =
     Some (''out.csv'', [CHR 0x22, CHR ''a'', CHR 0x22, CHR '','', CHR 0x22, CHR ''b'', CHR 0x22, CHR 0x0A,
                         CHR 0x22, CHR ''1'', CHR 0x22, CHR '','', CHR 0x22, CHR ''2'', CHR 0x22, CHR 0x0A])
   \<and> written (OnExportCSVClicked ''out'' (\<lambda>p. True) initial_frame) = None"
  using csv_export_format [of "initial_frame\<lparr>fCurrentTableHeader := [''a'', ''b''], fCurrentTableData := [[''1'', ''2'']]\<rparr>"
      "''out''" "\<lambda>p. True"]
    csv_export_format [of initial_frame "''out''" "\<lambda>p. True"]
  by (simp add: EndsWith_def dquote_def newline_def initial_frame_def)

lemma lower_select_ab: "ToLower ''select a, b from t'' = ''select a, b from t''"
  by code_simp

lemma submit_zero_rows:
  assumes "BeginsWith (ToLower q) ''select''" "db q = Some r" "resultRows r = []"
  shows "fDataView (submit db s q) = [concat (map Format15 (fieldNames r)), '' '']"
    and "fCurrentTableHeader (submit db s q) = fieldNames r"
    and "fCurrentTableData (submit db s q) = []"
  using assms by (simp_all add: submit_def OnRunSQLClicked_def load_result Let_def)

text \<open>A query with two columns and no row loads a table: the header is cached and
  shown. Exporting it writes no file, not even the header line.\<close>

theorem csv_export_no_rows_counterexample:
  "fCurrentTableHeader (submit (\<lambda>q. Some \<lparr>fieldNames = [''a'', ''b''], resultRows = []\<rparr>)
       initial_frame ''select a, b from t'') = [''a'', ''b'']
   \<and> fDataView (submit (\<lambda>q. Some \<lparr>fieldNames = [''a'', ''b''], resultRows = []\<rparr>)
       initial_frame ''select a, b from t'') =
       [''a              b              '', '' '']
   \<and> written (OnExportCSVClicked ''out'' (\<lambda>p. True)
        (submit (\<lambda>q. Some \<lparr>fieldNames = [''a'', ''b''], resultRows = []\<rparr>)
           initial_frame ''select a, b from t'')) = None"
proof -
  let ?db = "\<lambda>q::string. Some \<lparr>fieldNames = [''a'', ''b''], resultRows = []\<rparr>"
  have p: "BeginsWith (ToLower ''select a, b from t'') ''select''"
    by (simp add: lower_select_ab BeginsWith_def)
  have r: "?db ''select a, b from t'' = Some \<lparr>fieldNames = [''a'', ''b''], resultRows = []\<rparr>"
    by simp
  have e: "resultRows \<lparr>fieldNames = [''a'', ''b''], resultRows = []\<rparr> = []"
    by simp
  note z = submit_zero_rows [OF p r e, of initial_frame]
  have "written (OnExportCSVClicked ''out'' (\<lambda>p. True) (submit ?db initial_frame ''select a, b from t'')) = None"
    by (simp add: OnExportCSVClicked_def z(3))
  with z(1,2) header_line_ab show ?thesis by simp
qed

subsection \<open>The pool of plot windows\<close>

lemma plot_queue:
  "\<not> (maxCanvases \<le> length queue \<and> queue = []) \<Longrightarrow>
   canvasQueue (PlotSelectedData Atof ovf c tableData tableHeader xIndex yIndex plotType queue maxCanvases) =
     (if maxCanvases \<le> length queue then tl queue else queue) @ [c]"
  by (simp add: PlotSelectedData_def Let_def split: prod.split)

lemma plot_events:
  "\<not> (maxCanvases \<le> length queue \<and> queue = []) \<Longrightarrow>
   windowEvents (PlotSelectedData Atof ovf c tableData tableHeader xIndex yIndex plotType queue maxCanvases) =
     (if maxCanvases \<le> length queue then [Closed (hd queue), Deleted (hd queue)] else []) @ [Created c]"
  by (simp add: PlotSelectedData_def Let_def split: prod.split)

lemma pool_guard: "\<not> (kMaxCanvases \<le> length queue \<and> queue = [])"
  by (auto simp: kMaxCanvases_def)

lemma button_queue:
  "fCanvasQueue (fst (OnPlotButtonClicked Atof ovf c x y t s)) =
     (if x - 1 < 0 \<or> int (length (fCurrentTableHeader s)) \<le> x - 1 then fCanvasQueue s
      else (if kMaxCanvases \<le> length (fCanvasQueue s) then tl (fCanvasQueue s) else fCanvasQueue s) @ [c])"
  by (simp add: OnPlotButtonClicked_def Let_def plot_queue [OF pool_guard])

lemma button_bounded:
  "length (fCanvasQueue s) \<le> kMaxCanvases \<Longrightarrow>
   length (fCanvasQueue (fst (OnPlotButtonClicked Atof ovf c x y t s))) \<le> kMaxCanvases"
  by (auto simp: button_queue kMaxCanvases_def)

lemma plot_all_bounded:
  "length (fCanvasQueue s) \<le> kMaxCanvases \<Longrightarrow>
   length (fCanvasQueue (plot_all Atof ovf s reqs)) \<le> kMaxCanvases"
proof (induction reqs arbitrary: s)
  case Nil
  then show ?case by (simp add: plot_all_def)
next
  case (Cons r reqs)
  obtain c x y t where r: "r = (c, x, y, t)" by (cases r) auto
  have "plot_all Atof ovf s (r # reqs) =
        plot_all Atof ovf (fst (OnPlotButtonClicked Atof ovf c x y t s)) reqs"
    by (simp add: plot_all_def r)
  with Cons.IH [OF button_bounded [OF Cons.prems]] show ?case by simp
qed

text \<open>
  Claim C8. The pool of plot windows never holds more than 3 windows: from a pool of at
  most 3, any session of plot requests leaves at most 3. A request that is served while
  the pool holds 3 windows closes the oldest window, deletes it, and only then creates
  the new one, which goes to the back of the queue.
\<close>

theorem canvas_pool_bounded:
  assumes "length (fCanvasQueue s) \<le> kMaxCanvases"
  shows "length (fCanvasQueue (plot_all Atof ovf s reqs)) \<le> kMaxCanvases
       \<and> (\<forall>out. length (fCanvasQueue s) = kMaxCanvases \<and>
                 snd (OnPlotButtonClicked Atof ovf c x y t s) = Inr out \<longrightarrow>
            windowEvents out =
              [Closed (hd (fCanvasQueue s)), Deleted (hd (fCanvasQueue s)), Created c]
          \<and> canvasQueue out = tl (fCanvasQueue s) @ [c]
          \<and> fCanvasQueue (fst (OnPlotButtonClicked Atof ovf c x y t s)) = tl (fCanvasQueue s) @ [c])"
proof (intro conjI allI impI)
  show "length (fCanvasQueue (plot_all Atof ovf s reqs)) \<le> kMaxCanvases"
    using assms by (rule plot_all_bounded)
next
  fix out
  assume a: "length (fCanvasQueue s) = kMaxCanvases \<and>
             snd (OnPlotButtonClicked Atof ovf c x y t s) = Inr out"
  then have valid: "\<not> (x - 1 < 0 \<or> int (length (fCurrentTableHeader s)) \<le> x - 1)"
    by (auto simp: OnPlotButtonClicked_def Let_def split: if_splits)
  with a have out: "out = PlotSelectedData Atof ovf c (fCurrentTableData s) (fCurrentTableHeader s)
      (x - 1) (y - 1) t (fCanvasQueue s) kMaxCanvases"
    by (auto simp: OnPlotButtonClicked_def Let_def split: if_splits)
  from a show "windowEvents out =
      [Closed (hd (fCanvasQueue s)), Deleted (hd (fCanvasQueue s)), Created c]"
    by (simp add: out plot_events [OF pool_guard])
  from a show "canvasQueue out = tl (fCanvasQueue s) @ [c]"
    by (simp add: out plot_queue [OF pool_guard])
  from a valid show "fCanvasQueue (fst (OnPlotButtonClicked Atof ovf c x y t s)) = tl (fCanvasQueue s) @ [c]"
    by (simp add: button_queue)
qed

text \<open>A fourth window: the pool 11, 12, 13 becomes 12, 13, 14.\<close>

theorem canvas_pool_bounded_witness:
  "length (fCanvasQueue demo_frame) \<le> kMaxCanvases \<and>
   length (fCanvasQueue demo_frame) = kMaxCanvases \<and>
   (\<exists>out. snd (OnPlotButtonClicked (\<lambda>s. 0) (\<lambda>r. 0) 14 1 0 2 demo_frame) = Inr out) \<and>
   fCanvasQueue (fst (OnPlotButtonClicked (\<lambda>s. 0) (\<lambda>r. 0) 14 1 0 2 demo_frame)) = [12, 13, 14]"
proof -
  have h: "length (fCanvasQueue demo_frame) \<le> kMaxCanvases"
    by (simp add: demo_frame_def kMaxCanvases_def)
  have full: "length (fCanvasQueue demo_frame) = kMaxCanvases"
    by (simp add: demo_frame_def kMaxCanvases_def)
  have ex: "\<exists>out. snd (OnPlotButtonClicked (\<lambda>s. 0) (\<lambda>r. 0) 14 1 0 2 demo_frame) = Inr out"
    by (simp add: OnPlotButtonClicked_def Let_def demo_frame_def)
  then obtain out where out: "snd (OnPlotButtonClicked (\<lambda>s. 0) (\<lambda>r. 0) 14 1 0 2 demo_frame) = Inr out" ..
  from canvas_pool_bounded [OF h, of "\<lambda>s. 0" "\<lambda>r. 0" "[]" 14 1 0 2] full out
  have "fCanvasQueue (fst (OnPlotButtonClicked (\<lambda>s. 0) (\<lambda>r. 0) 14 1 0 2 demo_frame)) =
        tl (fCanvasQueue demo_frame) @ [14]"
    by blast
  then show ?thesis using h full ex by (simp add: demo_frame_def)
qed

subsection \<open>Quantiles\<close>

lemma quartile_index_bounds:
  assumes "data \<noteq> []" "0 \<le> q" "q \<le> 1"
  shows "0 \<le> \<lfloor>q * real (length data - 1)\<rfloor>"
    and "\<lceil>q * real (length data - 1)\<rceil> < int (length data)"
proof -
  let ?n = "length data"
  have n: "0 < ?n" using assms(1) by simp
  have "0 \<le> q * real (?n - 1)" using assms(2) by simp
  then show "0 \<le> \<lfloor>q * real (?n - 1)\<rfloor>" by simp
  have "q * real (?n - 1) \<le> 1 * real (?n - 1)"
    using assms(3) by (intro mult_right_mono) simp_all
  then have "q * real (?n - 1) \<le> real_of_int (int (?n - 1))" by simp
  then have "\<lceil>q * real (?n - 1)\<rceil> \<le> int (?n - 1)" by (simp only: ceiling_le_iff)
  moreover have "int (?n - 1) < int ?n" using n by arith
  ultimately show "\<lceil>q * real (?n - 1)\<rceil> < int ?n" by (rule le_less_trans)
qed

lemma interpolate_between:
  fixes h :: real and s :: "real list"
  assumes lo: "0 \<le> \<lfloor>h\<rfloor>" and hi: "\<lceil>h\<rceil> < int n"
  shows "(if nat \<lfloor>h\<rfloor> = nat \<lceil>h\<rceil> then s ! nat \<lfloor>h\<rfloor>
          else s ! nat \<lfloor>h\<rfloor> * (1 - (h - real (nat \<lfloor>h\<rfloor>))) + s ! nat \<lceil>h\<rceil> * (h - real (nat \<lfloor>h\<rfloor>)))
         = s ! nat \<lfloor>h\<rfloor> + (h - real (nat \<lfloor>h\<rfloor>)) * (s ! min (nat \<lfloor>h\<rfloor> + 1) (n - 1) - s ! nat \<lfloor>h\<rfloor>)"
proof (cases "\<lfloor>h\<rfloor> = \<lceil>h\<rceil>")
  case True
  then have "h = real_of_int \<lfloor>h\<rfloor>"
    by (metis le_of_int_ceiling of_int_floor_le order_antisym)
  moreover have "real (nat \<lfloor>h\<rfloor>) = real_of_int \<lfloor>h\<rfloor>" using lo by simp
  ultimately have "h - real (nat \<lfloor>h\<rfloor>) = 0" by simp
  with True show ?thesis by simp
next
  case False
  then have c: "\<lceil>h\<rceil> = \<lfloor>h\<rfloor> + 1"
    by (metis ceiling_altdef of_int_floor_cancel ceiling_of_int)
  have up: "nat \<lceil>h\<rceil> = nat \<lfloor>h\<rfloor> + 1" using lo unfolding c by arith
  have "nat \<lfloor>h\<rfloor> + 1 \<le> n - 1" using hi c lo by linarith
  then have m: "min (nat \<lfloor>h\<rfloor> + 1) (n - 1) = nat \<lfloor>h\<rfloor> + 1" by simp
  have ne: "nat \<lfloor>h\<rfloor> \<noteq> nat \<lceil>h\<rceil>" using up by simp
  show ?thesis
    unfolding m using ne by (simp add: up algebra_simps)
qed

lemma GetQuartile_in_range:
  assumes "data \<noteq> []" "0 \<le> q" "q \<le> 1"
  shows "GetQuartile data q = Some (interpolated_quantile data q)"
proof -
  define h where "h = q * real (length data - 1)"
  note b = quartile_index_bounds [OF assms, folded h_def]
  have "GetQuartile data q =
      Some (if nat \<lfloor>h\<rfloor> = nat \<lceil>h\<rceil> then sort data ! nat \<lfloor>h\<rfloor>
            else sort data ! nat \<lfloor>h\<rfloor> * (1 - (h - real (nat \<lfloor>h\<rfloor>)))
                 + sort data ! nat \<lceil>h\<rceil> * (h - real (nat \<lfloor>h\<rfloor>)))"
    unfolding GetQuartile_def Let_def h_def [symmetric]
    using assms(1) b by (simp add: not_less not_le)
  also have "\<dots> = Some (interpolated_quantile data q)"
    unfolding interpolated_quantile_def Let_def h_def [symmetric]
    by (simp only: interpolate_between [OF b])
  finally show ?thesis .
qed

lemma GetQuartile_singleton: "GetQuartile [x] q = Some x"
  by (simp add: GetQuartile_def)

lemma GetQuartile_1234_lower: "GetQuartile [1, 2, 3, 4] 0.25 = Some 1.75"
proof -
  have f: "\<lfloor>3 / 4 :: real\<rfloor> = 0" by (simp add: floor_eq_iff)
  have c: "\<lceil>3 / 4 :: real\<rceil> = 1" by (simp add: ceiling_eq_iff)
  show ?thesis
    by (simp add: GetQuartile_def Let_def f c)
qed

lemma GetQuartile_1234_upper: "GetQuartile [1, 2, 3, 4] 0.75 = Some 3.25"
proof -
  have f: "\<lfloor>9 / 4 :: real\<rfloor> = 2" by (simp add: floor_eq_iff)
  have c: "\<lceil>9 / 4 :: real\<rceil> = 3" by (simp add: ceiling_eq_iff)
  show ?thesis
    by (simp add: GetQuartile_def Let_def f c)
qed

text \<open>
  Claim C4. For every non-empty list of samples and every \<open>q\<close> between 0 and 1,
  \<^verbatim>\<open>GetQuartile\<close> returns the linear interpolation between the two adjacent order
  statistics of the sorted data at the fractional rank \<open>q * (n - 1)\<close>. In particular
  the quantile of 1, 2, 3, 4 at 0.25 is 1.75, at 0.75 it is 3.25, and the quantile of
  the single sample 5 is 5 for every \<open>q\<close>.
\<close>

theorem quantile_interpolation:
  "(xs \<noteq> [] \<and> 0 \<le> q \<and> q \<le> 1 \<longrightarrow> GetQuartile xs q = Some (interpolated_quantile xs q))
   \<and> GetQuartile [1, 2, 3, 4] 0.25 = Some 1.75
   \<and> GetQuartile [1, 2, 3, 4] 0.75 = Some 3.25
   \<and> (\<forall>p. GetQuartile [5] p = Some 5)"
proof (intro conjI impI allI)
  assume "xs \<noteq> [] \<and> 0 \<le> q \<and> q \<le> 1"
  then show "GetQuartile xs q = Some (interpolated_quantile xs q)"
    by (intro GetQuartile_in_range) simp_all
qed (rule GetQuartile_1234_lower GetQuartile_1234_upper GetQuartile_singleton)+

text \<open>The general statement at the samples 1, 2, 3, 4 and \<open>q = 0.25\<close>.\<close>

theorem quantile_interpolation_witness:
  "[1, 2, 3, 4 :: real] \<noteq> [] \<and> (0 :: real) \<le> 0.25 \<and> (0.25 :: real) \<le> 1 \<and>
   GetQuartile [1, 2, 3, 4] 0.25 = Some (interpolated_quantile [1, 2, 3, 4] 0.25) \<and>
   interpolated_quantile [1, 2, 3, 4] 0.25 = 1.75"
proof -
  have f: "\<lfloor>3 / 4 :: real\<rfloor> = 0" by (simp add: floor_eq_iff)
  have "interpolated_quantile [1, 2, 3, 4] 0.25 = 1.75"
    by (simp add: interpolated_quantile_def Let_def f)
  then show ?thesis
    using quantile_interpolation [of "[1, 2, 3, 4]" "0.25"] by simp
qed

subsection \<open>Nice bin widths\<close>

lemma binWidth_defined:
  assumes "data \<noteq> []"
  shows "\<exists>bw. binWidth data = Some bw"
proof -
  have q1: "GetQuartile data 0.25 = Some (interpolated_quantile data 0.25)"
    using assms by (intro GetQuartile_in_range) simp_all
  have q3: "GetQuartile data 0.75 = Some (interpolated_quantile data 0.75)"
    using assms by (intro GetQuartile_in_range) simp_all
  show ?thesis
    unfolding binWidth_def q1 q3 using assms by (simp add: Let_def)
qed

lemma nBins_defined:
  assumes "data \<noteq> []"
  shows "\<exists>n. nBins ovf data = Some n"
proof -
  obtain bw where bw: "binWidth data = Some bw" using binWidth_defined [OF assms] by blast
  obtain x xs where d: "data = x # xs" using assms by (cases data) auto
  show ?thesis
    unfolding nBins_def bw unfolding d by (simp add: Let_def)
qed

text \<open>
  Claim C10. For every input \<open>v \<le> 0\<close>, \<^verbatim>\<open>RoundToNiceValue\<close> returns exactly 1; this
  covers the raw bin width 0 of a non-empty series whose two quartiles are equal, whose
  bin width is therefore 1.
\<close>

theorem round_to_nice_nonpositive:
  "(v \<le> 0 \<longrightarrow> RoundToNiceValue v = 1)
   \<and> (data \<noteq> [] \<and> GetQuartile data 0.75 = GetQuartile data 0.25 \<longrightarrow> binWidth data = Some 1)"
proof (intro conjI impI)
  assume "v \<le> 0"
  then show "RoundToNiceValue v = 1" by (simp add: RoundToNiceValue_def)
next
  assume a: "data \<noteq> [] \<and> GetQuartile data 0.75 = GetQuartile data 0.25"
  then have "GetQuartile data 0.25 = Some (interpolated_quantile data 0.25)"
    by (intro GetQuartile_in_range) simp_all
  with a show "binWidth data = Some 1"
    by (simp add: binWidth_def Let_def RoundToNiceValue_def)
qed

text \<open>At \<open>-3\<close>, at 0, and for the samples 0, 0, 0, 0, 8.\<close>

theorem round_to_nice_nonpositive_witness:
  "(-3 :: real) \<le> 0 \<and> RoundToNiceValue (-3) = 1 \<and> RoundToNiceValue 0 = 1 \<and>
   [0, 0, 0, 0, 8 :: real] \<noteq> [] \<and>
   GetQuartile [0, 0, 0, 0, 8] 0.75 = GetQuartile [0, 0, 0, 0, 8] 0.25 \<and>
   binWidth [0, 0, 0, 0, 8] = Some 1"
proof -
  have q: "GetQuartile [0, 0, 0, 0, 8] 0.75 = GetQuartile [0, 0, 0, 0, 8] 0.25"
    by (simp add: GetQuartile_def Let_def)
  from round_to_nice_nonpositive [of "-3" "[0, 0, 0, 0, 8]"] round_to_nice_nonpositive [of 0 "[]"] q
  show ?thesis by simp
qed

subsection \<open>The fall-back to the 1D plot\<close>

lemma collect_series_filter:
  "collect_series Atof xIndex yIndex rows =
     (map (\<lambda>row. Atof (row ! nat xIndex)) (filter (\<lambda>row. valid_cell row xIndex) rows),
      if yIndex \<ge> 0
      then map (\<lambda>row. Atof (row ! nat yIndex)) (filter (\<lambda>row. valid_cell row yIndex) rows)
      else [])"
  by (induction rows) (auto simp: Let_def)

lemma Hist1D_defined:
  assumes "xData \<noteq> []" "header_in_range tableHeader xIndex"
  shows "\<exists>n lo hi. Hist1D ovf tableHeader xIndex xData =
           Some \<lparr>h1_nbins = n, h1_xlow = lo, h1_xup = hi, h1_fills = xData\<rparr>"
proof -
  obtain n where n: "nBins ovf xData = Some n" using nBins_defined [OF assms(1)] by blast
  obtain y ys where d: "xData = y # ys" using assms(1) by (cases xData) auto
  show ?thesis
    unfolding Hist1D_def n using assms(2) unfolding d by simp
qed

text \<open>
  Claim C6, as amended. A cell contributes a value to its series when the row has it and
  it is not empty, whether its text is numeric or not: the text goes through \<^verbatim>\<open>Atof\<close>.
  For every plot request that passes the check of the X selection and in which no Y
  column is selected or the Y series so built has another length than the X series, the
  plot builder takes the 1D path on the X series alone and drops the Y series without
  a message: for the scatter kind it draws the X values against their index; for the
  histogram kind, when the X series is not empty, it draws the 1D histogram filled with
  the X series and keeps no 2D histogram.
\<close>

theorem y_series_dropped:
  assumes valid: "0 \<le> xSelected - 1 \<and> xSelected - 1 < int (length (fCurrentTableHeader s))"
    and series: "collect_series Atof (xSelected - 1) (ySelected - 1) (fCurrentTableData s) = (xData, yData)"
    and mismatch: "ySelected - 1 < 0 \<or> length yData \<noteq> length xData"
  shows "xData = map (\<lambda>row. Atof (row ! nat (xSelected - 1)))
                   (filter (\<lambda>row. valid_cell row (xSelected - 1)) (fCurrentTableData s))
     \<and> yData = (if ySelected - 1 \<ge> 0
                 then map (\<lambda>row. Atof (row ! nat (ySelected - 1)))
                        (filter (\<lambda>row. valid_cell row (ySelected - 1)) (fCurrentTableData s))
                 else [])
     \<and> (\<exists>out. snd (OnPlotButtonClicked Atof ovf c xSelected ySelected plotType s) = Inr out
          \<and> (plotType = 2 \<longrightarrow>
                drawn out = Some (DrawGraph \<lparr>points = zip (map real [0..<length xData]) xData,
                                             markerColor = kBlue\<rparr>))
          \<and> (plotType = 1 \<and> xData \<noteq> [] \<longrightarrow>
                (\<exists>n lo hi. drawn out =
                   Some (DrawTH1D \<lparr>h1_nbins = n, h1_xlow = lo, h1_xup = hi, h1_fills = xData\<rparr>))
              \<and> lastHist2D out = None))"
proof (intro conjI)
  show "xData = map (\<lambda>row. Atof (row ! nat (xSelected - 1)))
                   (filter (\<lambda>row. valid_cell row (xSelected - 1)) (fCurrentTableData s))"
    using series by (simp add: collect_series_filter)
  show "yData = (if ySelected - 1 \<ge> 0
                 then map (\<lambda>row. Atof (row ! nat (ySelected - 1)))
                        (filter (\<lambda>row. valid_cell row (ySelected - 1)) (fCurrentTableData s))
                 else [])"
    using series by (simp add: collect_series_filter)
next
  let ?out = "PlotSelectedData Atof ovf c (fCurrentTableData s) (fCurrentTableHeader s)
                (xSelected - 1) (ySelected - 1) plotType (fCanvasQueue s) kMaxCanvases"
  have hdr: "header_in_range (fCurrentTableHeader s) (xSelected - 1)"
    using valid unfolding header_in_range_def by linarith
  have res: "snd (OnPlotButtonClicked Atof ovf c xSelected ySelected plotType s) = Inr ?out"
    using valid by (simp add: OnPlotButtonClicked_def Let_def)
  have h1: "plotType = 1 \<Longrightarrow>
      drawn ?out = map_option DrawTH1D (Hist1D ovf (fCurrentTableHeader s) (xSelected - 1) xData)"
    using mismatch pool_guard [of "fCanvasQueue s"]
    by (auto simp: PlotSelectedData_def series Let_def)
  have h2: "plotType = 1 \<Longrightarrow> lastHist2D ?out = None"
    using mismatch pool_guard [of "fCanvasQueue s"]
    by (auto simp: PlotSelectedData_def series Let_def split: option.splits drawing.splits)
  have h3: "plotType = 1 \<Longrightarrow> xData \<noteq> [] \<Longrightarrow>
      \<exists>n lo hi. drawn ?out =
         Some (DrawTH1D \<lparr>h1_nbins = n, h1_xlow = lo, h1_xup = hi, h1_fills = xData\<rparr>)"
    using Hist1D_defined [OF _ hdr, of xData ovf] h1 by fastforce
  have g: "plotType = 2 \<Longrightarrow>
      drawn ?out = Some (DrawGraph \<lparr>points = zip (map real [0..<length xData]) xData,
                                     markerColor = kBlue\<rparr>)"
    using mismatch pool_guard [of "fCanvasQueue s"] hdr
    by (auto simp: PlotSelectedData_def series Let_def Scatter1D_def)
  from res h2 h3 g
  show "\<exists>out. snd (OnPlotButtonClicked Atof ovf c xSelected ySelected plotType s) = Inr out
          \<and> (plotType = 2 \<longrightarrow>
                drawn out = Some (DrawGraph \<lparr>points = zip (map real [0..<length xData]) xData,
                                             markerColor = kBlue\<rparr>))
          \<and> (plotType = 1 \<and> xData \<noteq> [] \<longrightarrow>
                (\<exists>n lo hi. drawn out =
                   Some (DrawTH1D \<lparr>h1_nbins = n, h1_xlow = lo, h1_xup = hi, h1_fills = xData\<rparr>))
              \<and> lastHist2D out = None)"
    by blast
qed

lemma demo_series:
  "collect_series demo_Atof (1 - 1) (2 - 1) (fCurrentTableData demo_frame) = ([1, 3], [2])"
  by (simp add: demo_frame_def valid_cell_def IsNull_def demo_Atof_def)

text \<open>The second row of the example table has an empty cell in the Y column: the
  series have 2 and 1 values; the scatter plot shows the X values against 0 and 1, and
  the histogram is the 1D histogram filled with the two X values.\<close>

theorem y_series_dropped_witness:
  "(0 \<le> (1::int) - 1 \<and> (1::int) - 1 < int (length (fCurrentTableHeader demo_frame))) \<and>
   collect_series demo_Atof (1 - 1) (2 - 1) (fCurrentTableData demo_frame) = ([1, 3], [2]) \<and>
   ((2::int) - 1 < 0 \<or> length [2::real] \<noteq> length [1, 3 :: real]) \<and>
   (\<exists>out. snd (OnPlotButtonClicked demo_Atof (\<lambda>r. 0) 14 1 2 2 demo_frame) = Inr out \<and>
      drawn out = Some (DrawGraph \<lparr>points = [(0, 1), (1, 3)], markerColor = kBlue\<rparr>)) \<and>
   [1, 3 :: real] \<noteq> [] \<and>
   (\<exists>out n lo hi. snd (OnPlotButtonClicked demo_Atof (\<lambda>r. 0) 14 1 2 1 demo_frame) = Inr out \<and>
      drawn out = Some (DrawTH1D \<lparr>h1_nbins = n, h1_xlow = lo, h1_xup = hi, h1_fills = [1, 3]\<rparr>) \<and>
      lastHist2D out = None)"
proof -
  have v: "0 \<le> (1::int) - 1 \<and> (1::int) - 1 < int (length (fCurrentTableHeader demo_frame))"
    by (simp add: demo_frame_def)
  have m: "(2::int) - 1 < 0 \<or> length [2::real] \<noteq> length [1, 3 :: real]" by simp
  have z: "zip (map real [0..<length [1, 3 :: real]]) [1, 3] = [(0, 1), (1, 3 :: real)]"
    by (simp add: upt_rec)
  from y_series_dropped [OF v demo_series m, of "\<lambda>r. 0" 14 2]
  have g: "\<exists>out. snd (OnPlotButtonClicked demo_Atof (\<lambda>r. 0) 14 1 2 2 demo_frame) = Inr out \<and>
      drawn out = Some (DrawGraph \<lparr>points = [(0, 1), (1, 3)], markerColor = kBlue\<rparr>)"
    unfolding z by auto
  from y_series_dropped [OF v demo_series m, of "\<lambda>r. 0" 14 1]
  have h: "\<exists>out n lo hi. snd (OnPlotButtonClicked demo_Atof (\<lambda>r. 0) 14 1 2 1 demo_frame) = Inr out \<and>
      drawn out = Some (DrawTH1D \<lparr>h1_nbins = n, h1_xlow = lo, h1_xup = hi, h1_fills = [1, 3]\<rparr>) \<and>
      lastHist2D out = None"
    by fastforce
  from v demo_series m g h show ?thesis by blast
qed

text \<open>A row with the number 1 in the X column and the word abc in the Y column: the
  columns have 1 and 0 cells that are not empty and numeric, yet both series have one
  value, and the scatter plot is the 2D one, with the point (1, 0) in red, not the X
  value against its index in blue.\<close>

theorem non_numeric_cell_counterexample:
  "length (claimed_valid_values (fCurrentTableData word_frame) (2 - 1)) \<noteq>
     length (claimed_valid_values (fCurrentTableData word_frame) (1 - 1))
   \<and> snd (OnPlotButtonClicked demo_Atof (\<lambda>r. 0) 14 1 2 2 word_frame) =
       Inr (PlotSelectedData demo_Atof (\<lambda>r. 0) 14 (fCurrentTableData word_frame)
              (fCurrentTableHeader word_frame) 0 1 2 (fCanvasQueue word_frame) kMaxCanvases)
   \<and> drawn (PlotSelectedData demo_Atof (\<lambda>r. 0) 14 (fCurrentTableData word_frame)
              (fCurrentTableHeader word_frame) 0 1 2 (fCanvasQueue word_frame) kMaxCanvases) =
       Some (DrawGraph \<lparr>points = [(1, 0)], markerColor = kRed\<rparr>)
   \<and> Some (DrawGraph \<lparr>points = [(1, 0)], markerColor = kRed\<rparr>) \<noteq>
       Some (DrawGraph \<lparr>points = zip (map real [0..<length [1::real]]) [1], markerColor = kBlue\<rparr>)"
proof (intro conjI)
  show "length (claimed_valid_values (fCurrentTableData word_frame) (2 - 1)) \<noteq>
     length (claimed_valid_values (fCurrentTableData word_frame) (1 - 1))"
    by (simp add: claimed_valid_values_def word_frame_def numeric_text_def)
  show "snd (OnPlotButtonClicked demo_Atof (\<lambda>r. 0) 14 1 2 2 word_frame) =
       Inr (PlotSelectedData demo_Atof (\<lambda>r. 0) 14 (fCurrentTableData word_frame)
              (fCurrentTableHeader word_frame) 0 1 2 (fCanvasQueue word_frame) kMaxCanvases)"
    by (simp add: OnPlotButtonClicked_def Let_def word_frame_def)
  have s: "collect_series demo_Atof 0 1 (fCurrentTableData word_frame) = ([1], [0])"
    by (simp add: word_frame_def valid_cell_def IsNull_def demo_Atof_def)
  show "drawn (PlotSelectedData demo_Atof (\<lambda>r. 0) 14 (fCurrentTableData word_frame)
              (fCurrentTableHeader word_frame) 0 1 2 (fCanvasQueue word_frame) kMaxCanvases) =
       Some (DrawGraph \<lparr>points = [(1, 0)], markerColor = kRed\<rparr>)"
    unfolding PlotSelectedData_def s
    by (simp add: Let_def word_frame_def initial_frame_def kMaxCanvases_def Scatter2D_def
                  header_in_range_def)
  show "Some (DrawGraph \<lparr>points = [(1, 0)], markerColor = kRed\<rparr>) \<noteq>
       Some (DrawGraph \<lparr>points = zip (map real [0..<length [1::real]]) [1], markerColor = kBlue\<rparr>)"
    by simp
qed

end
